theory Spec2Isabelle
  imports Complex_Main "HOL-Library.Log_Nat"
begin

section \<open>Deep Zoom pyramid geometry of makePosterMontage.py\<close>

text \<open>
  The script embeds the Deep Zoom tools: a descriptor class that answers geometry queries
  (number of levels, scale, dimensions, tile grid and tile bounds of a level) and an image
  creator that resamples, crops and encodes every tile. Python integers are \<^typ>\<open>int\<close>.
  Python floats are idealised as \<^typ>\<open>real\<close>: \<open>math.log\<close>, \<open>math.pow\<close>, \<open>math.ceil\<close>,
  true division and \<open>round\<close> are the exact mathematical operations, so rounding error of the
  IEEE double arithmetic is outside this development. Exceptions are values of a sum type.
\<close>

subsection \<open>Exceptions and library functions\<close>

datatype error = AssertionError | ValueError | ZeroDivisionError | AttributeError

text \<open>\<open>math.log(x, base)\<close>: a math domain error for a non-positive argument or base, a
  division by zero for base 1 (the quotient of the two natural logarithms).\<close>

definition math_log :: "real \<Rightarrow> real \<Rightarrow> error + real" where
  "math_log x base =
     (if x \<le> 0 \<or> base \<le> 0 then Inl ValueError
      else if base = 1 then Inl ZeroDivisionError
      else Inr (log base x))"

text \<open>\<open>int(x)\<close> of a float truncates towards zero; \<open>round(x)\<close> of Python 3 rounds to the
  nearest integer and a tie to the even neighbour.\<close>

definition py_int :: "real \<Rightarrow> int" where
  "py_int x = (if 0 \<le> x then \<lfloor>x\<rfloor> else \<lceil>x\<rceil>)"

definition py_round :: "real \<Rightarrow> int" where
  "py_round x =
     (let f = \<lfloor>x\<rfloor>; r = x - of_int f
      in if r < 1 / 2 then f
         else if 1 / 2 < r then f + 1
         else if even f then f else f + 1)"

text \<open>\<open>range(n)\<close>: the integers from 0 up to \<open>n - 1\<close>, empty for \<open>n \<le> 0\<close>.\<close>

definition py_range :: "int \<Rightarrow> int list" where
  "py_range n = map int [0 ..< nat n]"

subsection \<open>DeepZoomImageDescriptor\<close>

record DeepZoomImageDescriptor =
  width :: int
  height :: int
  tile_size :: int
  tile_overlap :: int
  tile_format :: string

text \<open>The property \<open>num_levels\<close> caches its value in \<open>_num_levels\<close>; no method assigns a field
  after construction, so the cached value is the computed one and the property is a function
  of the descriptor. The logarithm is the exact one: \<open>math.log(x, 2)\<close> of CPython is a
  quotient of two rounded logarithms, which at a few exact powers of two (the first is
  2 to the 29th) lies just above the exponent, so that the ceiling there is one more than
  in this model.\<close>

definition num_levels :: "DeepZoomImageDescriptor \<Rightarrow> error + int" where
  "num_levels d =
     (let max_dimension = max (width d) (height d)
      in case math_log (of_int max_dimension) 2 of
           Inl e \<Rightarrow> Inl e
         | Inr l \<Rightarrow> Inr (\<lceil>l\<rceil> + 1))"

definition get_scale :: "DeepZoomImageDescriptor \<Rightarrow> int \<Rightarrow> error + real" where
  "get_scale d level =
     (case num_levels d of
        Inl e \<Rightarrow> Inl e
      | Inr n \<Rightarrow>
          if \<not> (0 \<le> level \<and> level < n) then Inl AssertionError
          else let max_level = n - 1
               in Inr ((1 / 2) ^ nat (max_level - level)))"

definition get_dimensions :: "DeepZoomImageDescriptor \<Rightarrow> int \<Rightarrow> error + int \<times> int" where
  "get_dimensions d level =
     (case num_levels d of
        Inl e \<Rightarrow> Inl e
      | Inr n \<Rightarrow>
          if \<not> (0 \<le> level \<and> level < n) then Inl AssertionError
          else case get_scale d level of
                 Inl e \<Rightarrow> Inl e
               | Inr scale \<Rightarrow>
                   Inr (\<lceil>of_int (width d) * scale\<rceil>, \<lceil>of_int (height d) * scale\<rceil>))"

definition get_num_tiles :: "DeepZoomImageDescriptor \<Rightarrow> int \<Rightarrow> error + int \<times> int" where
  "get_num_tiles d level =
     (case num_levels d of
        Inl e \<Rightarrow> Inl e
      | Inr n \<Rightarrow>
          if \<not> (0 \<le> level \<and> level < n) then Inl AssertionError
          else case get_dimensions d level of
                 Inl e \<Rightarrow> Inl e
               | Inr (w, h) \<Rightarrow>
                   if tile_size d = 0 then Inl ZeroDivisionError
                   else Inr (\<lceil>real_of_int w / of_int (tile_size d)\<rceil>,
                             \<lceil>real_of_int h / of_int (tile_size d)\<rceil>))"

definition get_tile_bounds ::
  "DeepZoomImageDescriptor \<Rightarrow> int \<Rightarrow> int \<Rightarrow> int \<Rightarrow> error + int \<times> int \<times> int \<times> int" where
  "get_tile_bounds d level column row =
     (case num_levels d of
        Inl e \<Rightarrow> Inl e
      | Inr n \<Rightarrow>
          if \<not> (0 \<le> level \<and> level < n) then Inl AssertionError
          else
            let offset_x = (if column = 0 then 0 else tile_overlap d);
                offset_y = (if row = 0 then 0 else tile_overlap d);
                x = column * tile_size d - offset_x;
                y = row * tile_size d - offset_y
            in case get_dimensions d level of
                 Inl e \<Rightarrow> Inl e
               | Inr (level_width, level_height) \<Rightarrow>
                   let w = tile_size d + (if column = 0 then 1 else 2) * tile_overlap d;
                       h = tile_size d + (if row = 0 then 1 else 2) * tile_overlap d;
                       w' = min w (level_width - x);
                       h' = min h (level_height - y)
                   in Inr (x, y, x + w', y + h'))"

subsection \<open>Module constants and PIL images\<close>

text \<open>The resampling kernels of PIL are kept by name. A PIL image is the expression that
  produced it: a decoded bitmap of some size with its pixel data, the result of
  \<open>resize\<close>, or the result of \<open>crop\<close>; which image a call receives is then visible in its
  result.\<close>

datatype resample = CUBIC | BILINEAR | BICUBIC | NEAREST | ANTIALIAS

datatype 'p image =
    Bitmap "int \<times> int" 'p
  | Resize "'p image" "int \<times> int" resample
  | Crop "'p image" "int \<times> int \<times> int \<times> int"

fun image_size :: "'p image \<Rightarrow> int \<times> int" where
  "image_size (Bitmap sz _) = sz"
| "image_size (Resize _ sz _) = sz"
| "image_size (Crop _ (x1, y1, x2, y2)) = (x2 - x1, y2 - y1)"

definition DEFAULT_RESIZE_FILTER :: resample where
  "DEFAULT_RESIZE_FILTER = ANTIALIAS"

definition DEFAULT_IMAGE_FORMAT :: string where
  "DEFAULT_IMAGE_FORMAT = ''png''"

definition RESIZE_FILTERS :: "string \<rightharpoonup> resample" where
  "RESIZE_FILTERS =
     map_of [(''cubic'', CUBIC), (''bilinear'', BILINEAR), (''bicubic'', BICUBIC),
             (''nearest'', NEAREST), (''antialias'', ANTIALIAS)]"

definition IMAGE_FORMATS :: "string \<rightharpoonup> string" where
  "IMAGE_FORMATS = map_of [(''jpg'', ''jpg''), (''png'', ''png'')]"

text \<open>The helper \<open>_clamp(val, min, max)\<close>.\<close>

definition clamp :: "'a::linorder \<Rightarrow> 'a \<Rightarrow> 'a \<Rightarrow> 'a" where
  "clamp val mn mx = (if val < mn then mn else if val > mx then mx else val)"

subsection \<open>ImageCreator\<close>

text \<open>The attributes \<open>image\<close> and \<open>descriptor\<close> do not exist before \<open>create\<close> assigns them;
  reading one earlier is an AttributeError. The fields that share a name with a field of the
  descriptor, and \<open>image\<close>, carry the prefix \<open>ic_\<close>.\<close>

record 'p ImageCreator =
  ic_tile_size :: int
  ic_tile_format :: string
  ic_tile_overlap :: int
  image_quality :: real
  resize_filter :: "string option"
  copy_metadata :: bool
  ic_image :: "'p image option"
  descriptor :: "DeepZoomImageDescriptor option"

text \<open>The constructor, for an integer tile size and overlap (where \<open>int(...)\<close> is the
  identity), a string format and a real quality.\<close>

definition ImageCreator_init ::
  "int \<Rightarrow> int \<Rightarrow> string \<Rightarrow> real \<Rightarrow> string option \<Rightarrow> bool \<Rightarrow> 'p ImageCreator" where
  "ImageCreator_init tile_size' tile_overlap' tile_format' image_quality' resize_filter'
       copy_metadata' =
     \<lparr>ic_tile_size = tile_size',
      ic_tile_format =
        (if IMAGE_FORMATS tile_format' = None then DEFAULT_IMAGE_FORMAT else tile_format'),
      ic_tile_overlap = clamp tile_overlap' 0 10,
      image_quality = clamp image_quality' 0 1,
      resize_filter = resize_filter',
      copy_metadata = copy_metadata',
      ic_image = None,
      descriptor = None\<rparr>"

definition get_image :: "'p ImageCreator \<Rightarrow> int \<Rightarrow> error + 'p image" where
  "get_image self level =
     (case descriptor self of
        None \<Rightarrow> Inl AttributeError
      | Some d \<Rightarrow>
          case num_levels d of
            Inl e \<Rightarrow> Inl e
          | Inr n \<Rightarrow>
              if \<not> (0 \<le> level \<and> level < n) then Inl AssertionError
              else case get_dimensions d level of
                     Inl e \<Rightarrow> Inl e
                   | Inr (width', height') \<Rightarrow>
                       if width d = width' \<and> height d = height'
                       then (case ic_image self of
                               None \<Rightarrow> Inl AttributeError
                             | Some img \<Rightarrow> Inr img)
                       else if resize_filter self = None
                               \<or> RESIZE_FILTERS (the (resize_filter self)) = None
                       then (case ic_image self of
                               None \<Rightarrow> Inl AttributeError
                             | Some img \<Rightarrow> Inr (Resize img (width', height') ANTIALIAS))
                       else (case ic_image self of
                               None \<Rightarrow> Inl AttributeError
                             | Some img \<Rightarrow>
                                 Inr (Resize img (width', height')
                                        (the (RESIZE_FILTERS (the (resize_filter self)))))))"

text \<open>The generator \<open>tiles\<close>: columns in the outer loop, rows in the inner one.\<close>

definition tiles :: "'p ImageCreator \<Rightarrow> int \<Rightarrow> error + (int \<times> int) list" where
  "tiles self level =
     (case descriptor self of
        None \<Rightarrow> Inl AttributeError
      | Some d \<Rightarrow>
          case get_num_tiles d level of
            Inl e \<Rightarrow> Inl e
          | Inr (columns, rows) \<Rightarrow>
              Inr (concat (map (\<lambda>column. map (\<lambda>row. (column, row)) (py_range rows))
                               (py_range columns))))"

text \<open>What \<open>create\<close> hands to \<open>tile.save\<close>: the format \<open>"JPEG"\<close> with \<open>quality\<close>, or no
  format with \<open>compress_level\<close>. A written tile is recorded with its level directory, its
  file name \<open>column_row.format\<close>, the cropped image and the arguments of \<open>save\<close>.\<close>

datatype save_args = JPEG int | PNG int

record 'p tile_file =
  tf_level :: int
  tf_column :: int
  tf_row :: int
  tf_format :: string
  tf_tile :: "'p image"
  tf_args :: save_args

text \<open>The body of the inner loop of \<open>create\<close> for one tile; \<open>d\<close> is the descriptor that
  \<open>create\<close> has assigned to \<open>self.descriptor\<close>.\<close>

definition write_tile ::
  "'p ImageCreator \<Rightarrow> DeepZoomImageDescriptor \<Rightarrow> int \<Rightarrow> 'p image \<Rightarrow> int \<times> int
     \<Rightarrow> error + 'p tile_file" where
  "write_tile self d level level_image cr =
     (case cr of (column, row) \<Rightarrow>
        case get_tile_bounds d level column row of
          Inl e \<Rightarrow> Inl e
        | Inr bounds \<Rightarrow>
            Inr \<lparr>tf_level = level, tf_column = column, tf_row = row,
                 tf_format = tile_format d,
                 tf_tile = Crop level_image bounds,
                 tf_args =
                   (if tile_format d = ''jpg''
                    then JPEG (py_int (image_quality self * 100))
                    else PNG (py_round ((1 - image_quality self) * 10)))\<rparr>)"

text \<open>The two loops thread the list of files written so far; an exception leaves the files
  already written in place.\<close>

fun write_tiles ::
  "'p ImageCreator \<Rightarrow> DeepZoomImageDescriptor \<Rightarrow> int \<Rightarrow> 'p image \<Rightarrow> (int \<times> int) list
     \<Rightarrow> 'p tile_file list \<Rightarrow> error option \<times> 'p tile_file list" where
  "write_tiles self d level level_image [] files = (None, files)"
| "write_tiles self d level level_image (cr # rest) files =
     (case write_tile self d level level_image cr of
        Inl e \<Rightarrow> (Some e, files)
      | Inr f \<Rightarrow> write_tiles self d level level_image rest (files @ [f]))"

fun write_levels ::
  "'p ImageCreator \<Rightarrow> DeepZoomImageDescriptor \<Rightarrow> int list \<Rightarrow> 'p tile_file list
     \<Rightarrow> error option \<times> 'p tile_file list" where
  "write_levels self d [] files = (None, files)"
| "write_levels self d (level # rest) files =
     (case get_image self level of
        Inl e \<Rightarrow> (Some e, files)
      | Inr level_image \<Rightarrow>
          case tiles self level of
            Inl e \<Rightarrow> (Some e, files)
          | Inr crs \<Rightarrow>
              case write_tiles self d level level_image crs files of
                (Some e, files') \<Rightarrow> (Some e, files')
              | (None, files') \<Rightarrow> write_levels self d rest files')"

text \<open>\<open>create(source, destination)\<close>: the creator after the two assignments, then the
  levels in ascending order, then the descriptor file. The result is the exception raised
  (if any), the tile files written and the descriptor saved; the directories and the
  destination path are left out.\<close>

definition assign_source :: "'p ImageCreator \<Rightarrow> 'p image \<Rightarrow> 'p ImageCreator" where
  "assign_source self source =
     self\<lparr>ic_image := Some source,
          descriptor := Some \<lparr>width = fst (image_size source),
                              height = snd (image_size source),
                              tile_size = ic_tile_size self,
                              tile_overlap = ic_tile_overlap self,
                              tile_format = ic_tile_format self\<rparr>\<rparr>"

definition create ::
  "'p ImageCreator \<Rightarrow> 'p image
     \<Rightarrow> error option \<times> 'p tile_file list \<times> DeepZoomImageDescriptor option" where
  "create self source =
     (let self' = assign_source self source;
          d = the (descriptor self')
      in case num_levels d of
           Inl e \<Rightarrow> (Some e, [], None)
         | Inr n \<Rightarrow>
             case write_levels self' d (py_range n) [] of
               (Some e, files) \<Rightarrow> (Some e, files, None)
             | (None, files) \<Rightarrow> (None, files, Some d))"

subsection \<open>Example descriptors\<close>

definition square_254 :: DeepZoomImageDescriptor where
  "square_254 = \<lparr>width = 254, height = 254, tile_size = 254, tile_overlap = 1,
                 tile_format = ''png''\<rparr>"

definition landscape_1024 :: DeepZoomImageDescriptor where
  "landscape_1024 = \<lparr>width = 1024, height = 768, tile_size = 254, tile_overlap = 1,
                     tile_format = ''png''\<rparr>"


definition negative_width :: DeepZoomImageDescriptor where
  "negative_width = \<lparr>width = - 5, height = 10, tile_size = 254, tile_overlap = 1,
                     tile_format = ''png''\<rparr>"


definition tiny_source :: "unit image" where
  "tiny_source = Bitmap (3, 2) ()"

definition tiny_creator :: "string \<Rightarrow> unit ImageCreator" where
  "tiny_creator fmt = ImageCreator_init 254 1 fmt (7 / 8) (Some ''antialias'') False"

definition tiny_descriptor :: "string \<Rightarrow> DeepZoomImageDescriptor" where
  "tiny_descriptor fmt = \<lparr>width = 3, height = 2, tile_size = 254, tile_overlap = 1,
                           tile_format = fmt\<rparr>"

section \<open>The number of levels\<close>

lemma num_levels_pos_dim:
  assumes "1 \<le> max (width d) (height d)"
  shows "num_levels d = Inr (\<lceil>log 2 (of_int (max (width d) (height d)))\<rceil> + 1)"
  using assms by (auto simp add: num_levels_def math_log_def Let_def max_def split: if_splits)

lemma num_levels_nonpos_dim:
  assumes "max (width d) (height d) \<le> 0"
  shows "num_levels d = Inl ValueError"
  using assms by (auto simp add: num_levels_def math_log_def Let_def max_def split: if_splits)

lemma ceiling_log2_bracket:
  fixes m :: int
  assumes "2 ^ k < m" and "m \<le> 2 ^ Suc k"
  shows "\<lceil>log 2 (of_int m)\<rceil> = int k + 1"
proof -
  have pos: "0 < m" using assms(1) by (smt (verit) zero_less_power)
  have lo: "real k < log 2 (of_int m)"
  proof -
    have "(2::real) ^ k < of_int m" using assms(1)
      by (metis of_int_less_iff of_int_numeral of_int_power)
    then show ?thesis using pos by (simp add: less_log_iff powr_realpow)
  qed
  have hi: "log 2 (of_int m) \<le> real (Suc k)"
  proof -
    have "of_int m \<le> (2::real) ^ Suc k" using assms(2)
      by (metis of_int_le_iff of_int_numeral of_int_power)
    moreover have "(2::real) ^ Suc k = 2 powr real (Suc k)"
      by (simp only: powr_realpow [symmetric] zero_less_numeral)
    ultimately have "of_int m \<le> (2::real) powr real (Suc k)" by simp
    then show ?thesis using pos by (subst log_le_iff) simp_all
  qed
  show ?thesis using lo hi by (simp add: ceiling_eq_iff)
qed

lemma num_levels_bracket:
  assumes "2 ^ k < max (width d) (height d)" and "max (width d) (height d) \<le> 2 ^ Suc k"
  shows "num_levels d = Inr (int k + 2)"
proof -
  have "1 \<le> max (width d) (height d)"
    using assms(1) by (smt (verit) zero_less_power)
  then show ?thesis
    using ceiling_log2_bracket [OF assms] by (simp add: num_levels_pos_dim)
qed





section \<open>Geometry at a valid level\<close>

lemma ceiling_scaled:
  "\<lceil>real_of_int w * (1 / 2) ^ k\<rceil> = - (- w div 2 ^ k)"
proof -
  have "((1::real) / 2) ^ k = 1 / 2 ^ k" by (simp only: power_one_over)
  moreover have "(2::real) ^ k = real_of_int (2 ^ k)" by simp
  ultimately have "real_of_int w * (1 / 2) ^ k = real_of_int w / real_of_int (2 ^ k)"
    by (simp only: times_divide_eq_right mult_1_right)
  then show ?thesis by (simp only: ceiling_divide_eq_div)
qed

lemma ceiling_quotient:
  "\<lceil>real_of_int w / real_of_int t\<rceil> = - (- w div t)"
  by (rule ceiling_divide_eq_div)

lemma get_scale_valid:
  assumes "num_levels d = Inr n" and "0 \<le> level" and "level < n"
  shows "get_scale d level = Inr ((1 / 2) ^ nat (n - 1 - level))"
  using assms by (simp add: get_scale_def Let_def)

lemma get_dimensions_valid:
  assumes "num_levels d = Inr n" and "0 \<le> level" and "level < n"
  shows "get_dimensions d level =
           Inr (- (- width d div 2 ^ nat (n - 1 - level)),
                - (- height d div 2 ^ nat (n - 1 - level)))"
  using assms by (simp add: get_dimensions_def get_scale_valid ceiling_scaled)

lemma get_num_tiles_valid:
  assumes "num_levels d = Inr n" and "0 \<le> level" and "level < n"
    and "get_dimensions d level = Inr (w, h)"
  shows "get_num_tiles d level =
           (if tile_size d = 0 then Inl ZeroDivisionError
            else Inr (- (- w div tile_size d), - (- h div tile_size d)))"
  using assms by (simp add: get_num_tiles_def ceiling_quotient)

lemma get_tile_bounds_valid:
  assumes "num_levels d = Inr n" and "0 \<le> level" and "level < n"
    and "get_dimensions d level = Inr (level_width, level_height)"
  shows "get_tile_bounds d level column row =
           Inr (column * tile_size d - (if column = 0 then 0 else tile_overlap d),
                row * tile_size d - (if row = 0 then 0 else tile_overlap d),
                column * tile_size d - (if column = 0 then 0 else tile_overlap d)
                  + min (tile_size d + (if column = 0 then 1 else 2) * tile_overlap d)
                        (level_width
                           - (column * tile_size d - (if column = 0 then 0 else tile_overlap d))),
                row * tile_size d - (if row = 0 then 0 else tile_overlap d)
                  + min (tile_size d + (if row = 0 then 1 else 2) * tile_overlap d)
                        (level_height
                           - (row * tile_size d - (if row = 0 then 0 else tile_overlap d))))"
  using assms by (simp add: get_tile_bounds_def Let_def)



lemma num_levels_landscape_1024: "num_levels landscape_1024 = Inr 11"
  using num_levels_bracket [of 9 landscape_1024] by (simp add: landscape_1024_def)




lemma get_dimensions_landscape_1024: "get_dimensions landscape_1024 10 = Inr (1024, 768)"
  using get_dimensions_valid [OF num_levels_landscape_1024, of 10]
  by (simp add: landscape_1024_def)

lemma get_dimensions_landscape_1024_7: "get_dimensions landscape_1024 7 = Inr (128, 96)"
  using get_dimensions_valid [OF num_levels_landscape_1024, of 7]
  by (simp add: landscape_1024_def)





section \<open>The finest level\<close>



section \<open>When the number of levels is undefined\<close>

text \<open>
  Claim C6 as stated (the number of levels fails whenever the width or the height is not
  positive) does not hold: with width -5 and height 10 the larger dimension is 10 and the
  property returns 5.
\<close>

theorem num_levels_counterexample:
  "width negative_width \<le> 0 \<and> num_levels negative_width = Inr 5"
  using num_levels_bracket [of 3 negative_width] by (simp add: negative_width_def)

text \<open>
  Claim C6, amended. The number of levels fails, with the math domain error of \<open>math.log\<close>,
  exactly when both the width and the height are at most 0; it returns a value exactly when
  one of them is positive, in particular when both are.
\<close>

theorem num_levels_fails_iff:
  "(num_levels d = Inl ValueError \<longleftrightarrow> width d \<le> 0 \<and> height d \<le> 0)
   \<and> ((\<exists>n. num_levels d = Inr n) \<longleftrightarrow> 0 < width d \<or> 0 < height d)
   \<and> (0 < width d \<and> 0 < height d \<longrightarrow> (\<exists>n. num_levels d = Inr n))"
proof (cases "1 \<le> max (width d) (height d)")
  case True
  then have "0 < width d \<or> 0 < height d" by linarith
  then show ?thesis using num_levels_pos_dim [OF True] by auto
next
  case False
  then have le: "max (width d) (height d) \<le> 0" by linarith
  then have "width d \<le> 0 \<and> height d \<le> 0" by linarith
  then show ?thesis using num_levels_nonpos_dim [OF le] by auto
qed

theorem num_levels_fails_iff_witness:
  "0 < width square_254 \<and> 0 < height square_254 \<and> num_levels square_254 = Inr 9
   \<and> num_levels square_254 \<noteq> Inl ValueError"
  using num_levels_fails_iff [of square_254] num_levels_bracket [of 7 square_254]
  by (simp add: square_254_def)

section \<open>Tile bounds\<close>







text \<open>
  Claim C2. For every valid tile coordinate, the bounds start at column * tile_size minus
  the offset (0 for column 0, the overlap otherwise); the width before clamping is the tile
  size plus once the overlap for column 0 and twice otherwise, and it is clamped so that the
  box ends at most at the level's width; rows alike. For a 1024 by 768 image with tile size
  254 and overlap 1, tile (1, 0) of the finest level starts at (253, 0) and tile (0, 0) at
  (0, 0).
\<close>

theorem tile_bounds_formula:
  "(\<forall>d n level levelWidth levelHeight numColumns numRows column row.
      num_levels d = Inr n \<and> 0 \<le> level \<and> level < n
      \<and> get_dimensions d level = Inr (levelWidth, levelHeight)
      \<and> get_num_tiles d level = Inr (numColumns, numRows)
      \<and> 0 \<le> column \<and> column < numColumns \<and> 0 \<le> row \<and> row < numRows \<longrightarrow>
      (\<exists>x1 y1 x2 y2. get_tile_bounds d level column row = Inr (x1, y1, x2, y2)
         \<and> x1 = column * tile_size d - (if column = 0 then 0 else tile_overlap d)
         \<and> y1 = row * tile_size d - (if row = 0 then 0 else tile_overlap d)
         \<and> x2 = x1 + min (tile_size d + (if column = 0 then 1 else 2) * tile_overlap d)
                         (levelWidth - x1)
         \<and> y2 = y1 + min (tile_size d + (if row = 0 then 1 else 2) * tile_overlap d)
                         (levelHeight - y1)
         \<and> x2 \<le> levelWidth \<and> y2 \<le> levelHeight))
   \<and> num_levels landscape_1024 = Inr 11
   \<and> get_tile_bounds landscape_1024 10 1 0 = Inr (253, 0, 509, 255)
   \<and> get_tile_bounds landscape_1024 10 0 0 = Inr (0, 0, 255, 255)"
proof (intro conjI allI impI)
  fix d n level levelWidth levelHeight numColumns numRows column row
  assume h: "num_levels d = Inr n \<and> 0 \<le> level \<and> level < n
      \<and> get_dimensions d level = Inr (levelWidth, levelHeight)
      \<and> get_num_tiles d level = Inr (numColumns, numRows)
      \<and> 0 \<le> column \<and> column < numColumns \<and> 0 \<le> row \<and> row < numRows"
  then have v: "num_levels d = Inr n" "0 \<le> level" "level < n"
    "get_dimensions d level = Inr (levelWidth, levelHeight)" by simp_all
  show "\<exists>x1 y1 x2 y2. get_tile_bounds d level column row = Inr (x1, y1, x2, y2)
         \<and> x1 = column * tile_size d - (if column = 0 then 0 else tile_overlap d)
         \<and> y1 = row * tile_size d - (if row = 0 then 0 else tile_overlap d)
         \<and> x2 = x1 + min (tile_size d + (if column = 0 then 1 else 2) * tile_overlap d)
                         (levelWidth - x1)
         \<and> y2 = y1 + min (tile_size d + (if row = 0 then 1 else 2) * tile_overlap d)
                         (levelHeight - y1)
         \<and> x2 \<le> levelWidth \<and> y2 \<le> levelHeight"
    unfolding get_tile_bounds_valid [OF v] by (auto simp add: min_def)
next
  show "num_levels landscape_1024 = Inr 11" by (rule num_levels_landscape_1024)
next
  show "get_tile_bounds landscape_1024 10 1 0 = Inr (253, 0, 509, 255)"
    using get_tile_bounds_valid
            [OF num_levels_landscape_1024 _ _ get_dimensions_landscape_1024, of 1 0]
    by (simp add: landscape_1024_def)
next
  show "get_tile_bounds landscape_1024 10 0 0 = Inr (0, 0, 255, 255)"
    using get_tile_bounds_valid
            [OF num_levels_landscape_1024 _ _ get_dimensions_landscape_1024, of 0 0]
    by (simp add: landscape_1024_def)
qed

theorem tile_bounds_formula_witness:
  "num_levels landscape_1024 = Inr 11
   \<and> get_dimensions landscape_1024 7 = Inr (128, 96)
   \<and> get_num_tiles landscape_1024 7 = Inr (1, 1)
   \<and> get_tile_bounds landscape_1024 7 0 0 = Inr (0, 0, 128, 96)"
proof -
  have nt: "get_num_tiles landscape_1024 7 = Inr (1, 1)"
    using get_num_tiles_valid [OF num_levels_landscape_1024 _ _ get_dimensions_landscape_1024_7]
    by (simp add: landscape_1024_def)
  have "num_levels landscape_1024 = Inr 11 \<and> (0::int) \<le> 7 \<and> (7::int) < 11
      \<and> get_dimensions landscape_1024 7 = Inr (128, 96)
      \<and> get_num_tiles landscape_1024 7 = Inr (1, 1)
      \<and> (0::int) \<le> 0 \<and> (0::int) < 1 \<and> (0::int) \<le> 0 \<and> (0::int) < 1"
    by (simp add: num_levels_landscape_1024 get_dimensions_landscape_1024_7 nt)
  with tile_bounds_formula have
    "\<exists>x1 y1 x2 y2. get_tile_bounds landscape_1024 7 0 0 = Inr (x1, y1, x2, y2)
         \<and> x1 = 0 * tile_size landscape_1024 - (if (0::int) = 0 then 0 else tile_overlap landscape_1024)
         \<and> y1 = 0 * tile_size landscape_1024 - (if (0::int) = 0 then 0 else tile_overlap landscape_1024)
         \<and> x2 = x1 + min (tile_size landscape_1024
                            + (if (0::int) = 0 then 1 else 2) * tile_overlap landscape_1024)
                         (128 - x1)
         \<and> y2 = y1 + min (tile_size landscape_1024
                            + (if (0::int) = 0 then 1 else 2) * tile_overlap landscape_1024)
                         (96 - y1)
         \<and> x2 \<le> 128 \<and> y2 \<le> 96"
    by blast
  then have "get_tile_bounds landscape_1024 7 0 0 = Inr (0, 0, 128, 96)"
    by (auto simp add: landscape_1024_def)
  then show ?thesis
    by (simp add: num_levels_landscape_1024 get_dimensions_landscape_1024_7 nt)
qed

section \<open>What the geometry queries check\<close>






section \<open>The constructor\<close>





section \<open>The loops of create\<close>

lemma write_tiles_files:
  assumes "f \<in> set (snd (write_tiles self d level img crs files))"
  shows "f \<in> set files \<or> (\<exists>cr \<in> set crs. write_tile self d level img cr = Inr f)"
  using assms
proof (induction crs arbitrary: files)
  case Nil
  then show ?case by simp
next
  case (Cons cr rest)
  show ?case
  proof (cases "write_tile self d level img cr")
    case (Inl e)
    with Cons.prems show ?thesis by simp
  next
    case (Inr g)
    with Cons.prems have "f \<in> set (snd (write_tiles self d level img rest (files @ [g])))"
      by simp
    from Cons.IH [OF this] Inr show ?thesis by auto
  qed
qed

lemma write_levels_files:
  assumes "f \<in> set (snd (write_levels self d levels files))"
  shows "f \<in> set files
       \<or> (\<exists>level \<in> set levels. \<exists>img cr.
             get_image self level = Inr img \<and> write_tile self d level img cr = Inr f)"
  using assms
proof (induction levels arbitrary: files)
  case Nil
  then show ?case by simp
next
  case (Cons level rest)
  show ?case
  proof (cases "get_image self level")
    case (Inl e)
    with Cons.prems show ?thesis by simp
  next
    case img: (Inr img)
    show ?thesis
    proof (cases "tiles self level")
      case (Inl e)
      with Cons.prems img show ?thesis by simp
    next
      case crs: (Inr crs)
      obtain err files' where wt: "write_tiles self d level img crs files = (err, files')"
        by (cases "write_tiles self d level img crs files")
      have step: "g \<in> set files' \<Longrightarrow>
          g \<in> set files \<or> (\<exists>cr. write_tile self d level img cr = Inr g)" for g
        using write_tiles_files [of g self d level img crs files] wt by auto
      show ?thesis
      proof (cases err)
        case (Some e)
        with Cons.prems img crs wt have "f \<in> set files'" by simp
        from step [OF this] img show ?thesis by auto
      next
        case None
        with Cons.prems img crs wt have "f \<in> set (snd (write_levels self d rest files'))"
          by simp
        from Cons.IH [OF this] step [of f] img show ?thesis by auto
      qed
    qed
  qed
qed

lemma create_files:
  assumes "f \<in> set (fst (snd (create self source)))"
  shows "\<exists>level img cr.
           get_image (assign_source self source) level = Inr img
         \<and> write_tile (assign_source self source)
              (the (descriptor (assign_source self source))) level img cr = Inr f"
proof (cases "num_levels (the (descriptor (assign_source self source)))")
  case (Inl e)
  with assms show ?thesis by (simp add: create_def Let_def)
next
  case (Inr n)
  let ?self = "assign_source self source"
  let ?d = "the (descriptor ?self)"
  obtain err files where wl: "write_levels ?self ?d (py_range n) [] = (err, files)"
    by (cases "write_levels ?self ?d (py_range n) []")
  with assms Inr have "f \<in> set files"
    by (cases err) (simp_all add: create_def Let_def)
  then have "f \<in> set (snd (write_levels ?self ?d (py_range n) []))" using wl by simp
  from write_levels_files [OF this] show ?thesis by auto
qed

lemma write_tile_fields:
  assumes "write_tile self d level img cr = Inr f"
  shows "tf_level f = level" and "tf_format f = tile_format d"
    and "\<exists>bounds. tf_tile f = Crop img bounds"
    and "tf_args f = (if tile_format d = ''jpg''
                      then JPEG (py_int (image_quality self * 100))
                      else PNG (py_round ((1 - image_quality self) * 10)))"
  using assms
  by (auto simp add: write_tile_def split: prod.splits sum.splits)

section \<open>A run of create\<close>

lemma py_range_3: "py_range 3 = [0, 1, 2]"
  by (simp add: py_range_def upt_rec)

lemma py_range_1: "py_range 1 = [0]"
  by (simp add: py_range_def)

lemma tiny_assigned:
  assumes "fmt = ''jpg'' \<or> fmt = ''png''"
  shows "descriptor (assign_source (tiny_creator fmt) tiny_source) = Some (tiny_descriptor fmt)"
    and "ic_image (assign_source (tiny_creator fmt) tiny_source) = Some tiny_source"
    and "image_quality (assign_source (tiny_creator fmt) tiny_source) = 7 / 8"
    and "resize_filter (assign_source (tiny_creator fmt) tiny_source) = Some ''antialias''"
  using assms
  by (auto simp add: assign_source_def tiny_creator_def ImageCreator_init_def tiny_source_def
        tiny_descriptor_def clamp_def IMAGE_FORMATS_def)

lemma num_levels_tiny: "num_levels (tiny_descriptor fmt) = Inr 3"
  using num_levels_bracket [of 1 "tiny_descriptor fmt"] by (simp add: tiny_descriptor_def)

lemma get_dimensions_tiny:
  "get_dimensions (tiny_descriptor fmt) 0 = Inr (1, 1)"
  "get_dimensions (tiny_descriptor fmt) 1 = Inr (2, 1)"
  "get_dimensions (tiny_descriptor fmt) 2 = Inr (3, 2)"
  using get_dimensions_valid [OF num_levels_tiny, of 0 fmt]
    get_dimensions_valid [OF num_levels_tiny, of 1 fmt]
    get_dimensions_valid [OF num_levels_tiny, of 2 fmt]
  by (simp_all add: tiny_descriptor_def)

lemma get_num_tiles_tiny:
  "get_num_tiles (tiny_descriptor fmt) 0 = Inr (1, 1)"
  "get_num_tiles (tiny_descriptor fmt) 1 = Inr (1, 1)"
  "get_num_tiles (tiny_descriptor fmt) 2 = Inr (1, 1)"
  using get_num_tiles_valid [OF num_levels_tiny _ _ get_dimensions_tiny(1), of fmt]
    get_num_tiles_valid [OF num_levels_tiny _ _ get_dimensions_tiny(2), of fmt]
    get_num_tiles_valid [OF num_levels_tiny _ _ get_dimensions_tiny(3), of fmt]
  by (simp_all add: tiny_descriptor_def)

lemma get_tile_bounds_tiny:
  "get_tile_bounds (tiny_descriptor fmt) 0 0 0 = Inr (0, 0, 1, 1)"
  "get_tile_bounds (tiny_descriptor fmt) 1 0 0 = Inr (0, 0, 2, 1)"
  "get_tile_bounds (tiny_descriptor fmt) 2 0 0 = Inr (0, 0, 3, 2)"
  using get_tile_bounds_valid [OF num_levels_tiny _ _ get_dimensions_tiny(1), of fmt 0 0]
    get_tile_bounds_valid [OF num_levels_tiny _ _ get_dimensions_tiny(2), of fmt 0 0]
    get_tile_bounds_valid [OF num_levels_tiny _ _ get_dimensions_tiny(3), of fmt 0 0]
  by (simp_all add: tiny_descriptor_def)

lemma get_image_tiny:
  assumes "fmt = ''jpg'' \<or> fmt = ''png''"
  shows "get_image (assign_source (tiny_creator fmt) tiny_source) 0
           = Inr (Resize tiny_source (1, 1) ANTIALIAS)"
    and "get_image (assign_source (tiny_creator fmt) tiny_source) 1
           = Inr (Resize tiny_source (2, 1) ANTIALIAS)"
    and "get_image (assign_source (tiny_creator fmt) tiny_source) 2 = Inr tiny_source"
  by (simp_all add: get_image_def tiny_assigned [OF assms] num_levels_tiny get_dimensions_tiny
        RESIZE_FILTERS_def)
     (simp_all add: tiny_descriptor_def)

lemma tiles_tiny:
  assumes "fmt = ''jpg'' \<or> fmt = ''png''"
  shows "tiles (assign_source (tiny_creator fmt) tiny_source) 0 = Inr [(0, 0)]"
    and "tiles (assign_source (tiny_creator fmt) tiny_source) 1 = Inr [(0, 0)]"
    and "tiles (assign_source (tiny_creator fmt) tiny_source) 2 = Inr [(0, 0)]"
  by (simp_all add: tiles_def tiny_assigned [OF assms] get_num_tiles_tiny py_range_1)


lemma py_round_tiny: "py_round ((1 - 7 / 8) * 10) = 1" "py_round (5 / 4) = 1"
  by (simp_all add: py_round_def Let_def)



lemma create_tiny_png:
  "create (tiny_creator ''png'') tiny_source =
     (None,
      [\<lparr>tf_level = 0, tf_column = 0, tf_row = 0, tf_format = ''png'',
        tf_tile = Crop (Resize tiny_source (1, 1) ANTIALIAS) (0, 0, 1, 1), tf_args = PNG 1\<rparr>,
       \<lparr>tf_level = 1, tf_column = 0, tf_row = 0, tf_format = ''png'',
        tf_tile = Crop (Resize tiny_source (2, 1) ANTIALIAS) (0, 0, 2, 1), tf_args = PNG 1\<rparr>,
       \<lparr>tf_level = 2, tf_column = 0, tf_row = 0, tf_format = ''png'',
        tf_tile = Crop tiny_source (0, 0, 3, 2), tf_args = PNG 1\<rparr>],
      Some (tiny_descriptor ''png''))"
  by (simp add: create_def Let_def tiny_assigned num_levels_tiny py_range_3 get_image_tiny
        tiles_tiny write_tile_def get_tile_bounds_tiny py_round_tiny)
     (simp add: tiny_descriptor_def)


section \<open>The arguments of save\<close>






lemma assign_source_fields:
  "image_quality (assign_source self source) = image_quality self"
  "resize_filter (assign_source self source) = resize_filter self"
  "ic_image (assign_source self source) = Some source"
  "tile_format (the (descriptor (assign_source self source))) = ic_tile_format self"
  "width (the (descriptor (assign_source self source))) = fst (image_size source)"
  "height (the (descriptor (assign_source self source))) = snd (image_size source)"
  by (simp_all add: assign_source_def)

lemma assign_source_descriptor:
  "descriptor (assign_source self source) = Some (the (descriptor (assign_source self source)))"
  by (simp add: assign_source_def)




section \<open>Level images\<close>

lemma get_dimensions_InrD:
  assumes "get_dimensions d level = Inr wh"
  shows "\<exists>n. num_levels d = Inr n \<and> 0 \<le> level \<and> level < n"
  using assms by (auto simp add: get_dimensions_def split: sum.splits if_splits)

lemma get_image_valid:
  assumes "descriptor self = Some d" and "ic_image self = Some src"
    and "get_dimensions d level = Inr (w, h)"
  shows "get_image self level =
           Inr (if width d = w \<and> height d = h then src
                else if resize_filter self = None
                        \<or> RESIZE_FILTERS (the (resize_filter self)) = None
                then Resize src (w, h) ANTIALIAS
                else Resize src (w, h) (the (RESIZE_FILTERS (the (resize_filter self)))))"
proof -
  from get_dimensions_InrD [OF assms(3)] obtain n where
    "num_levels d = Inr n" "0 \<le> level" "level < n" by blast
  then show ?thesis using assms by (simp add: get_image_def)
qed

lemma get_image_InrD:
  assumes "get_image self level = Inr img"
  shows "\<exists>d src w h. descriptor self = Some d \<and> ic_image self = Some src
           \<and> get_dimensions d level = Inr (w, h)"
  using assms
  by (auto simp add: get_image_def split: option.splits sum.splits if_splits prod.splits)

text \<open>
  Claim C9. At a level whose dimensions are the width and height of the descriptor,
  \<open>get_image\<close> returns the source bitmap itself; at any other level it returns the source
  resized to that level's dimensions. Every tile that \<open>create\<close> writes is cropped from the
  image \<open>get_image\<close> gives for the tile's level on the creator holding the source: the
  source itself or one \<open>resize\<close> of the source, never a resize of another level's image.
\<close>

theorem level_images_from_source:
  "(\<forall>(self :: 'p ImageCreator) d src level w h.
      descriptor self = Some d \<and> ic_image self = Some src
      \<and> get_dimensions d level = Inr (w, h) \<longrightarrow>
        (width d = w \<and> height d = h \<longrightarrow> get_image self level = Inr src)
      \<and> (\<not> (width d = w \<and> height d = h) \<longrightarrow>
           (\<exists>k. get_image self level = Inr (Resize src (w, h) k))))
   \<and> (\<forall>(self :: 'p ImageCreator) source f.
        f \<in> set (fst (snd (create self source))) \<longrightarrow>
          (\<exists>img bounds w h.
              tf_tile f = Crop img bounds
            \<and> get_image (assign_source self source) (tf_level f) = Inr img
            \<and> get_dimensions (the (descriptor (assign_source self source))) (tf_level f)
                = Inr (w, h)
            \<and> (if (w, h) = image_size source then img = source
                else \<exists>k. img = Resize source (w, h) k)))"
proof (intro conjI allI impI)
  fix self :: "'p ImageCreator" and d src level w h
  assume a: "descriptor self = Some d \<and> ic_image self = Some src
      \<and> get_dimensions d level = Inr (w, h)"
  assume "width d = w \<and> height d = h"
  then show "get_image self level = Inr src"
    using get_image_valid [of self d src level w h] a by simp
next
  fix self :: "'p ImageCreator" and d src level w h
  assume a: "descriptor self = Some d \<and> ic_image self = Some src
      \<and> get_dimensions d level = Inr (w, h)"
  assume "\<not> (width d = w \<and> height d = h)"
  then show "\<exists>k. get_image self level = Inr (Resize src (w, h) k)"
    using get_image_valid [of self d src level w h] a by auto
next
  fix self :: "'p ImageCreator" and source f
  assume mem: "f \<in> set (fst (snd (create self source)))"
  let ?self = "assign_source self source"
  let ?d = "the (descriptor ?self)"
  from create_files [OF mem] obtain level img cr where
    gi: "get_image ?self level = Inr img" and wt: "write_tile ?self ?d level img cr = Inr f"
    by blast
  have lv: "tf_level f = level" by (rule write_tile_fields(1) [OF wt])
  obtain bounds where crop: "tf_tile f = Crop img bounds"
    using write_tile_fields(3) [OF wt] by blast
  from get_image_InrD [OF gi] obtain d' w h where
    "descriptor ?self = Some d'" and "get_dimensions d' level = Inr (w, h)" by blast
  then have dims: "get_dimensions ?d level = Inr (w, h)" by simp
  have "get_image ?self level =
           Inr (if width ?d = w \<and> height ?d = h then source
                else if resize_filter ?self = None
                        \<or> RESIZE_FILTERS (the (resize_filter ?self)) = None
                then Resize source (w, h) ANTIALIAS
                else Resize source (w, h) (the (RESIZE_FILTERS (the (resize_filter ?self)))))"
    by (rule get_image_valid [OF assign_source_descriptor assign_source_fields(3) dims])
  with gi have "if (w, h) = image_size source then img = source
                else \<exists>k. img = Resize source (w, h) k"
    by (auto simp add: assign_source_fields(5,6) prod_eq_iff split: if_splits)
  with crop gi dims lv
  show "\<exists>img bounds w h.
              tf_tile f = Crop img bounds
            \<and> get_image (assign_source self source) (tf_level f) = Inr img
            \<and> get_dimensions (the (descriptor (assign_source self source))) (tf_level f)
                = Inr (w, h)
            \<and> (if (w, h) = image_size source then img = source
                else \<exists>k. img = Resize source (w, h) k)"
    by blast
qed

theorem level_images_from_source_witness:
  "get_image (assign_source (tiny_creator ''png'') tiny_source) 2 = Inr tiny_source
   \<and> (\<exists>k. get_image (assign_source (tiny_creator ''png'') tiny_source) 1
             = Inr (Resize tiny_source (2, 1) k))
   \<and> (\<exists>img bounds. Crop (Resize tiny_source (1, 1) ANTIALIAS) (0, 0, 1, 1) = Crop img bounds
          \<and> get_image (assign_source (tiny_creator ''png'') tiny_source) 0 = Inr img
          \<and> (\<exists>k. img = Resize tiny_source (1, 1) k))"
proof -
  let ?self = "assign_source (tiny_creator ''png'') tiny_source :: unit ImageCreator"
  let ?d = "tiny_descriptor ''png''"
  let ?f = "\<lparr>tf_level = 0, tf_column = 0, tf_row = 0, tf_format = ''png'',
        tf_tile = Crop (Resize tiny_source (1, 1) ANTIALIAS) (0, 0, 1, 1), tf_args = PNG 1\<rparr>"
  have d: "descriptor ?self = Some ?d" and src: "ic_image ?self = Some tiny_source"
    by (simp_all add: tiny_assigned)
  have wd: "width ?d = 3 \<and> height ?d = 2" by (simp add: tiny_descriptor_def)
  have sz: "image_size tiny_source = (3, 2)" by (simp add: tiny_source_def)
  have mem: "?f \<in> set (fst (snd (create (tiny_creator ''png'') tiny_source)))"
    by (simp add: create_tiny_png)
  note inst = level_images_from_source [where 'p = unit]
  from inst d src get_dimensions_tiny(3) [of "''png''"] wd
  have fine: "get_image ?self 2 = Inr tiny_source" by auto
  from inst d src get_dimensions_tiny(2) [of "''png''"] wd
  have mid: "\<exists>k. get_image ?self 1 = Inr (Resize tiny_source (2, 1) k)" by auto
  from inst mem obtain img bounds w h where
    t: "tf_tile ?f = Crop img bounds" "get_image ?self (tf_level ?f) = Inr img"
       "get_dimensions (the (descriptor ?self)) (tf_level ?f) = Inr (w, h)"
       "if (w, h) = image_size tiny_source then img = tiny_source
        else \<exists>k. img = Resize tiny_source (w, h) k"
    by blast
  from t(3) have "w = 1 \<and> h = 1" by (simp add: d get_dimensions_tiny)
  with t sz have "\<exists>img bounds.
       Crop (Resize tiny_source (1, 1) ANTIALIAS) (0, 0, 1, 1) = Crop img bounds
          \<and> get_image ?self 0 = Inr img \<and> (\<exists>k. img = Resize tiny_source (1, 1) k)"
    by auto
  with fine mid show ?thesis by blast
qed

end
